theory Spec2Isabelle
  imports Complex_Main "HOL-Library.AList"
begin

section \<open>Unitree Go2 constants: actuator gains, action scale, collision overrides\<close>

text \<open>
  The development follows \<^verbatim>\<open>asset_zoo/robots/unitree_go2/go2_constants.py\<close>. Python
  floats are modelled as real numbers: every decimal literal stands for its exact
  value and every operation is the exact one, so rounding is outside the model.
  Python integers are \<open>int\<close>. A raised exception is the \<open>Inl\<close> branch of a sum.
  Loading the MJCF file and its assets (\<^verbatim>\<open>get_assets\<close>, \<^verbatim>\<open>get_spec\<close>) and the initial
  state are not part of the properties below and are left out.
\<close>

subsection \<open>Errors\<close>

datatype error =
    DomainError
  | AssertionError
  | ZeroDivisionError
  | UnmatchedElementError
  | NoOverrideDefined
  | UnsupportedPattern

definition bind_result :: "error + 'a \<Rightarrow> ('a \<Rightarrow> error + 'b) \<Rightarrow> error + 'b" where
  "bind_result m f = (case m of Inl e \<Rightarrow> Inl e | Inr x \<Rightarrow> f x)"

subsection \<open>Actuator model\<close>

text \<open>
  \<^verbatim>\<open>ElectricActuator\<close> is a dataclass with three float fields. Its fields carry the
  prefix \<open>act_\<close> here, because \<open>reflected_inertia\<close> is also the name of the helper
  function and \<open>effort_limit\<close> also a field of the actuator configuration.
\<close>

record ElectricActuator =
  act_reflected_inertia :: real
  act_velocity_limit :: real
  act_effort_limit :: real

text \<open>
  Modelled from the spec: \<^verbatim>\<open>reflected_inertia\<close> of \<^verbatim>\<open>mjlab.utils.actuator\<close>, which
  is imported by the constants module but is not among the source files. The spec:
  "\<^verbatim>\<open>reflected_inertia(rotor_inertia, gear_ratio) -> float\<close>, defined as
  \<^verbatim>\<open>rotor_inertia * gear_ratio**2\<close>. Fails (domain error) if gear_ratio \<le> 0 or
  rotor_inertia < 0."
\<close>

definition reflected_inertia :: "real \<Rightarrow> real \<Rightarrow> error + real" where
  "reflected_inertia rotor_inertia gear_ratio =
     (if gear_ratio \<le> 0 \<or> rotor_inertia < 0 then Inl DomainError
      else Inr (rotor_inertia * gear_ratio ^ 2))"

definition ROTOR_INERTIA :: real where
  "ROTOR_INERTIA = 0.000111842"

definition HIP_GEAR_RATIO :: int where
  "HIP_GEAR_RATIO = 6"

definition KNEE_GEAR_RATIO :: int where
  "KNEE_GEAR_RATIO = 12"

definition HIP_ACTUATOR :: "error + ElectricActuator" where
  "HIP_ACTUATOR =
     bind_result (reflected_inertia ROTOR_INERTIA (real_of_int HIP_GEAR_RATIO))
       (\<lambda>ri. Inr \<lparr>act_reflected_inertia = ri, act_velocity_limit = 30.1,
                 act_effort_limit = 23.7\<rparr>)"

definition KNEE_ACTUATOR :: "error + ElectricActuator" where
  "KNEE_ACTUATOR =
     bind_result (reflected_inertia ROTOR_INERTIA (real_of_int KNEE_GEAR_RATIO))
       (\<lambda>ri. Inr \<lparr>act_reflected_inertia = ri, act_velocity_limit = 15.70,
                 act_effort_limit = 45.43\<rparr>)"

subsection \<open>Gains\<close>

definition NATURAL_FREQ :: real where
  "NATURAL_FREQ = 10.0 * 2.0 * 3.1415926535"

definition DAMPING_RATIO :: real where
  "DAMPING_RATIO = 2.0"

definition STIFFNESS_HIP :: "error + real" where
  "STIFFNESS_HIP =
     bind_result HIP_ACTUATOR (\<lambda>a. Inr (act_reflected_inertia a * (NATURAL_FREQ ^ 2)))"

definition DAMPING_HIP :: "error + real" where
  "DAMPING_HIP =
     bind_result HIP_ACTUATOR
       (\<lambda>a. Inr (2 * DAMPING_RATIO * act_reflected_inertia a * NATURAL_FREQ))"

definition STIFFNESS_KNEE :: "error + real" where
  "STIFFNESS_KNEE =
     bind_result KNEE_ACTUATOR (\<lambda>a. Inr (act_reflected_inertia a * (NATURAL_FREQ ^ 2)))"

definition DAMPING_KNEE :: "error + real" where
  "DAMPING_KNEE =
     bind_result KNEE_ACTUATOR
       (\<lambda>a. Inr (2 * DAMPING_RATIO * act_reflected_inertia a * NATURAL_FREQ))"

text \<open>
  The spec names the gain computation \<^verbatim>\<open>derive_gains(actuator, natural_freq_rad_s,
  damping_ratio) -> GainPair\<close>; the source has no such function and computes the four
  gains inline, as above. \<open>derive_gains_spec\<close> follows the spec's words (stiffness =
  inertia times the squared frequency, damping = twice the damping ratio times inertia
  times frequency, domain checks on the inputs) and is
  compared with the source's constants below.
\<close>

record GainPair =
  gp_stiffness :: real
  gp_damping :: real

definition derive_gains_spec :: "ElectricActuator \<Rightarrow> real \<Rightarrow> real \<Rightarrow> error + GainPair" where
  "derive_gains_spec actuator natural_freq_rad_s damping_ratio =
     (if act_reflected_inertia actuator \<le> 0 \<or> natural_freq_rad_s \<le> 0 \<or> damping_ratio < 0
      then Inl DomainError
      else Inr \<lparr>gp_stiffness = act_reflected_inertia actuator * natural_freq_rad_s ^ 2,
                gp_damping = 2 * damping_ratio * act_reflected_inertia actuator
                             * natural_freq_rad_s\<rparr>)"

subsection \<open>Position actuator configurations\<close>

text \<open>
  \<^verbatim>\<open>BuiltinPositionActuatorCfg\<close> and \<^verbatim>\<open>EntityArticulationInfoCfg\<close> are dataclasses of
  \<^verbatim>\<open>mjlab\<close>; the records below have the fields that the constants module sets.
  \<^verbatim>\<open>effort_limit\<close> may be \<^verbatim>\<open>None\<close> (the module asserts that it is not). The tuple of
  actuators of an articulation may hold other kinds of actuator configuration (the
  module asserts \<^verbatim>\<open>isinstance(a, BuiltinPositionActuatorCfg)\<close>), which
  \<open>OtherActuatorCfg\<close> stands for.
\<close>

record BuiltinPositionActuatorCfg =
  joint_names_expr :: "string list"
  stiffness :: real
  damping :: real
  effort_limit :: "real option"
  armature :: real

datatype ActuatorCfg =
    BuiltinPosition BuiltinPositionActuatorCfg
  | OtherActuatorCfg

record EntityArticulationInfoCfg =
  actuators :: "ActuatorCfg list"
  soft_joint_pos_limit_factor :: real

definition GO2_HIP_ACTUATOR_CFG :: "error + BuiltinPositionActuatorCfg" where
  "GO2_HIP_ACTUATOR_CFG =
     bind_result STIFFNESS_HIP (\<lambda>k.
     bind_result DAMPING_HIP (\<lambda>d.
     bind_result HIP_ACTUATOR (\<lambda>a.
       Inr \<lparr>joint_names_expr = [''.*_hip_joint'', ''.*_thigh_joint''],
            stiffness = k,
            damping = d,
            effort_limit = Some (act_effort_limit a),
            armature = act_reflected_inertia a\<rparr>)))"

definition GO2_KNEE_ACTUATOR_CFG :: "error + BuiltinPositionActuatorCfg" where
  "GO2_KNEE_ACTUATOR_CFG =
     bind_result STIFFNESS_KNEE (\<lambda>k.
     bind_result DAMPING_KNEE (\<lambda>d.
     bind_result KNEE_ACTUATOR (\<lambda>a.
       Inr \<lparr>joint_names_expr = [''.*_calf_joint''],
            stiffness = k,
            damping = d,
            effort_limit = Some (act_effort_limit a),
            armature = act_reflected_inertia a\<rparr>)))"

definition GO2_ARTICULATION :: "error + EntityArticulationInfoCfg" where
  "GO2_ARTICULATION =
     bind_result GO2_HIP_ACTUATOR_CFG (\<lambda>h.
     bind_result GO2_KNEE_ACTUATOR_CFG (\<lambda>k.
       Inr \<lparr>actuators = [BuiltinPosition h, BuiltinPosition k],
            soft_joint_pos_limit_factor = 0.9\<rparr>))"

subsection \<open>Action scaling computation\<close>

text \<open>
  \<^verbatim>\<open>GO2_ACTION_SCALE\<close> is a dict filled by two nested loops. A Python dict keeps its
  keys in insertion order and assigning to a key that is present replaces the value in
  place: that is \<open>AList.update\<close> on an association list. The inner loop divides
  \<^verbatim>\<open>e / s\<close> once per joint pattern; Python raises \<^verbatim>\<open>ZeroDivisionError\<close> when \<^verbatim>\<open>s\<close> is
  zero, and the loop body does not run for an empty tuple of patterns.
\<close>

type_synonym scale_dict = "(string \<times> real) list"

definition ACTION_SCALE_MULTIPLIER :: real where
  "ACTION_SCALE_MULTIPLIER = 0.25"

fun scale_names :: "real \<Rightarrow> real \<Rightarrow> string list \<Rightarrow> scale_dict \<Rightarrow> error + scale_dict" where
  "scale_names e s [] d = Inr d"
| "scale_names e s (n # names) d =
     (if s = 0 then Inl ZeroDivisionError
      else scale_names e s names (AList.update n (ACTION_SCALE_MULTIPLIER * (e / s)) d))"

fun action_scale_loop :: "ActuatorCfg list \<Rightarrow> scale_dict \<Rightarrow> error + scale_dict" where
  "action_scale_loop [] d = Inr d"
| "action_scale_loop (OtherActuatorCfg # rest) d = Inl AssertionError"
| "action_scale_loop (BuiltinPosition a # rest) d =
     (case effort_limit a of
        None \<Rightarrow> Inl AssertionError
      | Some e \<Rightarrow>
          (case scale_names e (stiffness a) (joint_names_expr a) d of
             Inl err \<Rightarrow> Inl err
           | Inr d' \<Rightarrow> action_scale_loop rest d'))"

definition GO2_ACTION_SCALE :: "error + scale_dict" where
  "GO2_ACTION_SCALE =
     bind_result GO2_ARTICULATION (\<lambda>art. action_scale_loop (actuators art) [])"

text \<open>Reading a key of the dict; a key that is absent raises \<^verbatim>\<open>KeyError\<close> in Python.\<close>

definition scale_at :: "error + scale_dict \<Rightarrow> string \<Rightarrow> real option" where
  "scale_at m k = (case m of Inl e \<Rightarrow> None | Inr d \<Rightarrow> map_of d k)"

text \<open>The joint patterns of an actuator group, for stating which keys the dict gets.\<close>

fun cfg_joint_names :: "ActuatorCfg \<Rightarrow> string list" where
  "cfg_joint_names (BuiltinPosition a) = joint_names_expr a"
| "cfg_joint_names OtherActuatorCfg = []"

subsection \<open>Patterns\<close>

text \<open>
  Modelled from the spec: the pattern language of selectors and override keys. The
  constants module only writes pattern strings; the code that matches them against
  element names is in \<^verbatim>\<open>mjlab.utils\<close> and is not among the source files. The spec:
  "regex semantics: match against element name", "full-string regex match".

  The model covers the constructs that the configurations of the module use: a literal
  character, \<^verbatim>\<open>.\<close> (any character but a newline), a character class \<^verbatim>\<open>[...]\<close> of
  literal members, the postfix \<^verbatim>\<open>*\<close>, a leading \<^verbatim>\<open>^\<close> and a trailing \<^verbatim>\<open>$\<close> (both
  hold trivially when the whole name has to match). Every other construct makes
  \<open>parse_pattern\<close> return \<open>None\<close>, and a resolution that meets such a pattern stops with
  \<open>UnsupportedPattern\<close> instead of guessing. Names are strings of 8-bit characters.
\<close>

datatype atom = Lit char | AnyChar | CharClass "char list"

datatype token = TAtom atom | TStar | TCaret | TDollar

datatype item = One atom | Many atom

definition unsupported_meta :: "char list" where
  "unsupported_meta = [CHR ''+'', CHR ''?'', CHR ''{'', CHR ''}'', CHR ''('', CHR '')'',
                       CHR ''|'', CHR 0x5C, CHR '']'']"

definition unsupported_in_class :: "char list" where
  "unsupported_in_class = [CHR ''^'', CHR ''-'', CHR 0x5C, CHR ''['']"

fun lex :: "string \<Rightarrow> token list option"
  and lex_class :: "char list \<Rightarrow> string \<Rightarrow> token list option" where
  "lex [] = Some []"
| "lex (c # cs) =
     (if c = CHR ''.'' then map_option ((#) (TAtom AnyChar)) (lex cs)
      else if c = CHR ''*'' then map_option ((#) TStar) (lex cs)
      else if c = CHR ''^'' then map_option ((#) TCaret) (lex cs)
      else if c = CHR ''$'' then map_option ((#) TDollar) (lex cs)
      else if c = CHR ''['' then lex_class [] cs
      else if c \<in> set unsupported_meta then None
      else map_option ((#) (TAtom (Lit c))) (lex cs))"
| "lex_class acc [] = None"
| "lex_class acc (c # cs) =
     (if c = CHR '']'' then
        (if acc = [] then None else map_option ((#) (TAtom (CharClass acc))) (lex cs))
      else if c \<in> set unsupported_in_class then None
      else lex_class (acc @ [c]) cs)"

fun group_items :: "token list \<Rightarrow> item list option" where
  "group_items [] = Some []"
| "group_items [TDollar] = Some []"
| "group_items (TAtom a # TStar # ts) = map_option ((#) (Many a)) (group_items ts)"
| "group_items (TAtom a # ts) = map_option ((#) (One a)) (group_items ts)"
| "group_items ts = None"

definition parse_pattern :: "string \<Rightarrow> item list option" where
  "parse_pattern p =
     (case lex p of
        None \<Rightarrow> None
      | Some (TCaret # ts) \<Rightarrow> group_items ts
      | Some ts \<Rightarrow> group_items ts)"

fun atom_accepts :: "atom \<Rightarrow> char \<Rightarrow> bool" where
  "atom_accepts (Lit c) x = (x = c)"
| "atom_accepts AnyChar x = (x \<noteq> CHR 0x0A)"
| "atom_accepts (CharClass cs) x = (x \<in> set cs)"

fun match_items :: "item list \<Rightarrow> string \<Rightarrow> bool" where
  "match_items [] s = (s = [])"
| "match_items (One a # r) [] = False"
| "match_items (One a # r) (c # cs) = (atom_accepts a c \<and> match_items r cs)"
| "match_items (Many a # r) [] = match_items r []"
| "match_items (Many a # r) (c # cs) =
     (match_items r (c # cs) \<or> (atom_accepts a c \<and> match_items (Many a # r) cs))"

definition re_fullmatch :: "string \<Rightarrow> string \<Rightarrow> bool option" where
  "re_fullmatch pat s = map_option (\<lambda>items. match_items items s) (parse_pattern pat)"

subsection \<open>Override resolution\<close>

text \<open>
  Modelled from the spec: \<^verbatim>\<open>resolve(element_names, selector_patterns, property,
  default)\<close> of the pattern selector and override resolver (section 4.3); the resolver
  itself is code of \<^verbatim>\<open>mjlab.utils\<close> and is not among the source files.
  \<^enum> For each element name, the selector patterns that match it are determined.
  \<^enum> An element with no matching pattern is left out, or is an error ("unmatched
    element") when the caller requires full coverage (\<open>strict\<close>).
  \<^enum> A scalar property gives every matched element that scalar.
  \<^enum> For a pattern-to-value mapping the keys are checked in declaration order and the
    value of the first key that matches the element is used; when no key matches, the
    fallback \<open>dflt\<close> (the contract's \<^verbatim>\<open>default\<close>) is used if there is one, and otherwise resolution fails ("no
    override defined for matched element").

  An override mapping is an association list in declaration order, as a Python dict
  literal is. The spec's step 5 (an error for two matching keys of equal declared
  priority) needs a priority that neither the spec's data model nor the dict literals of
  the module give to a key; declaration order ranks any two keys, and the model has no
  such error.
\<close>

datatype 'a Overridable = Scalar 'a | Patterned "(string \<times> 'a) list"

fun matches_any :: "string list \<Rightarrow> string \<Rightarrow> bool option" where
  "matches_any [] s = Some False"
| "matches_any (p # ps) s =
     (case re_fullmatch p s of
        None \<Rightarrow> None
      | Some b \<Rightarrow> (case matches_any ps s of None \<Rightarrow> None | Some b' \<Rightarrow> Some (b \<or> b')))"

fun first_override :: "(string \<times> 'a) list \<Rightarrow> string \<Rightarrow> error + 'a option" where
  "first_override [] s = Inr None"
| "first_override ((k, v) # kvs) s =
     (case re_fullmatch k s of
        None \<Rightarrow> Inl UnsupportedPattern
      | Some True \<Rightarrow> Inr (Some v)
      | Some False \<Rightarrow> first_override kvs s)"

fun resolve_element :: "'a Overridable \<Rightarrow> 'a option \<Rightarrow> string \<Rightarrow> error + 'a" where
  "resolve_element (Scalar v) dflt s = Inr v"
| "resolve_element (Patterned kvs) dflt s =
     (case first_override kvs s of
        Inl e \<Rightarrow> Inl e
      | Inr (Some v) \<Rightarrow> Inr v
      | Inr None \<Rightarrow> (case dflt of Some d \<Rightarrow> Inr d | None \<Rightarrow> Inl NoOverrideDefined))"

fun resolve ::
  "bool \<Rightarrow> string list \<Rightarrow> string list \<Rightarrow> 'a Overridable \<Rightarrow> 'a option
     \<Rightarrow> error + (string \<times> 'a) list" where
  "resolve strict [] selector_patterns property dflt = Inr []"
| "resolve strict (n # element_names) selector_patterns property dflt =
     (case matches_any selector_patterns n of
        None \<Rightarrow> Inl UnsupportedPattern
      | Some False \<Rightarrow>
          (if strict then Inl UnmatchedElementError
           else resolve strict element_names selector_patterns property dflt)
      | Some True \<Rightarrow>
          (case resolve_element property dflt n of
             Inl e \<Rightarrow> Inl e
           | Inr v \<Rightarrow>
               (case resolve strict element_names selector_patterns property dflt of
                  Inl e \<Rightarrow> Inl e
                | Inr m \<Rightarrow> Inr ((n, v) # m))))"

subsection \<open>Collision configurations\<close>

text \<open>
  \<^verbatim>\<open>CollisionCfg\<close> is a dataclass of \<^verbatim>\<open>mjlab.utils.spec_config\<close>; the record has the
  fields that the two configurations of the module set. Each property is either one
  value or a dict from pattern to value. Tuples of floats are lists of reals.
\<close>

record CollisionCfg =
  geom_names_expr :: "string list"
  contype :: "int Overridable"
  conaffinity :: "int Overridable"
  condim :: "int Overridable"
  priority :: "int Overridable"
  friction :: "real list Overridable"
  solimp :: "real list Overridable"

definition foot_regex :: string where
  "foot_regex = ''^[FR][LR]_foot_collision$''"

definition FEET_ONLY_COLLISION :: CollisionCfg where
  "FEET_ONLY_COLLISION =
     \<lparr>geom_names_expr = [foot_regex],
      contype = Scalar 0,
      conaffinity = Scalar 1,
      condim = Scalar 3,
      priority = Scalar 1,
      friction = Scalar [0.6],
      solimp = Scalar [0.9, 0.95, 0.023]\<rparr>"

definition FULL_COLLISION :: CollisionCfg where
  "FULL_COLLISION =
     \<lparr>geom_names_expr = [''.*_collision''],
      contype = Scalar 1,
      conaffinity = Scalar 0,
      condim = Patterned [(foot_regex, 3), (''.*_collision'', 1)],
      priority = Patterned [(foot_regex, 1)],
      friction = Patterned [(foot_regex, [0.6])],
      solimp = Patterned [(foot_regex, [0.9, 0.95, 0.023])]\<rparr>"

section \<open>Properties\<close>

subsection \<open>The actuator singletons\<close>

lemma HIP_ACTUATOR_value:
  "HIP_ACTUATOR = Inr \<lparr>act_reflected_inertia = 0.000111842 * 6 ^ 2,
                        act_velocity_limit = 30.1, act_effort_limit = 23.7\<rparr>"
  by (simp add: HIP_ACTUATOR_def bind_result_def reflected_inertia_def ROTOR_INERTIA_def
      HIP_GEAR_RATIO_def)

lemma KNEE_ACTUATOR_value:
  "KNEE_ACTUATOR = Inr \<lparr>act_reflected_inertia = 0.000111842 * 12 ^ 2,
                         act_velocity_limit = 15.70, act_effort_limit = 45.43\<rparr>"
  by (simp add: KNEE_ACTUATOR_def bind_result_def reflected_inertia_def ROTOR_INERTIA_def
      KNEE_GEAR_RATIO_def)

text \<open>
  Claim C5. \<open>reflected_inertia rotor_inertia gear_ratio\<close> is
  \<open>rotor_inertia * gear_ratio\<^sup>2\<close> for a rotor inertia that is not negative and a positive
  gear ratio, and a domain error when the gear ratio is not positive or the rotor
  inertia is negative; so the hip actuator's reflected inertia is
  \<open>0.000111842 * 6\<^sup>2\<close> and the knee actuator's is \<open>0.000111842 * 12\<^sup>2\<close>.
\<close>

theorem reflected_inertia_contract:
  "(0 \<le> r \<and> 0 < g \<longrightarrow> reflected_inertia r g = Inr (r * g ^ 2))
   \<and> (g \<le> 0 \<or> r < 0 \<longrightarrow> reflected_inertia r g = Inl DomainError)
   \<and> map_sum id act_reflected_inertia HIP_ACTUATOR = Inr (0.000111842 * 6 ^ 2)
   \<and> map_sum id act_reflected_inertia KNEE_ACTUATOR = Inr (0.000111842 * 12 ^ 2)"
  by (simp add: HIP_ACTUATOR_value KNEE_ACTUATOR_value) (auto simp: reflected_inertia_def)

theorem reflected_inertia_contract_witness:
  "((0::real) \<le> 0.000111842 \<and> (0::real) < 6)
   \<and> reflected_inertia 0.000111842 6 = Inr (0.000111842 * 6 ^ 2)
   \<and> ((-1::real) \<le> 0 \<or> (0.000111842::real) < 0)
   \<and> reflected_inertia 0.000111842 (-1) = Inl DomainError"
  using reflected_inertia_contract [of "0.000111842" 6]
    reflected_inertia_contract [of "0.000111842" "-1"]
  by simp

subsection \<open>Gains\<close>

text \<open>
  Claim C1. For every valid input (reflected inertia \<open>i > 0\<close>, natural frequency
  \<open>w > 0\<close>, damping ratio \<open>z \<ge> 0\<close>) the gain derivation returns stiffness \<open>i * w\<^sup>2\<close> and
  damping \<open>2 * z * i * w\<close>. The module's four gains are these closed forms of the hip
  and knee actuators' reflected inertias with \<open>NATURAL_FREQ\<close> and \<open>DAMPING_RATIO\<close>, and
  agree with the spec's derivation applied to the two actuators.
\<close>

theorem gains_closed_form:
  "(0 < act_reflected_inertia a \<and> 0 < w \<and> 0 \<le> z \<longrightarrow>
      derive_gains_spec a w z =
        Inr \<lparr>gp_stiffness = act_reflected_inertia a * w ^ 2,
             gp_damping = 2 * z * act_reflected_inertia a * w\<rparr>)
   \<and> (\<exists>h k. HIP_ACTUATOR = Inr h \<and> KNEE_ACTUATOR = Inr k
        \<and> STIFFNESS_HIP = Inr (act_reflected_inertia h * NATURAL_FREQ ^ 2)
        \<and> DAMPING_HIP = Inr (2 * DAMPING_RATIO * act_reflected_inertia h * NATURAL_FREQ)
        \<and> STIFFNESS_KNEE = Inr (act_reflected_inertia k * NATURAL_FREQ ^ 2)
        \<and> DAMPING_KNEE = Inr (2 * DAMPING_RATIO * act_reflected_inertia k * NATURAL_FREQ)
        \<and> derive_gains_spec h NATURAL_FREQ DAMPING_RATIO =
            bind_result STIFFNESS_HIP (\<lambda>s. bind_result DAMPING_HIP (\<lambda>d.
              Inr \<lparr>gp_stiffness = s, gp_damping = d\<rparr>))
        \<and> derive_gains_spec k NATURAL_FREQ DAMPING_RATIO =
            bind_result STIFFNESS_KNEE (\<lambda>s. bind_result DAMPING_KNEE (\<lambda>d.
              Inr \<lparr>gp_stiffness = s, gp_damping = d\<rparr>)))"
proof (intro conjI impI)
  assume "0 < act_reflected_inertia a \<and> 0 < w \<and> 0 \<le> z"
  then show "derive_gains_spec a w z =
        Inr \<lparr>gp_stiffness = act_reflected_inertia a * w ^ 2,
             gp_damping = 2 * z * act_reflected_inertia a * w\<rparr>"
    by (simp add: derive_gains_spec_def)
next
  show "\<exists>h k. HIP_ACTUATOR = Inr h \<and> KNEE_ACTUATOR = Inr k
        \<and> STIFFNESS_HIP = Inr (act_reflected_inertia h * NATURAL_FREQ ^ 2)
        \<and> DAMPING_HIP = Inr (2 * DAMPING_RATIO * act_reflected_inertia h * NATURAL_FREQ)
        \<and> STIFFNESS_KNEE = Inr (act_reflected_inertia k * NATURAL_FREQ ^ 2)
        \<and> DAMPING_KNEE = Inr (2 * DAMPING_RATIO * act_reflected_inertia k * NATURAL_FREQ)
        \<and> derive_gains_spec h NATURAL_FREQ DAMPING_RATIO =
            bind_result STIFFNESS_HIP (\<lambda>s. bind_result DAMPING_HIP (\<lambda>d.
              Inr \<lparr>gp_stiffness = s, gp_damping = d\<rparr>))
        \<and> derive_gains_spec k NATURAL_FREQ DAMPING_RATIO =
            bind_result STIFFNESS_KNEE (\<lambda>s. bind_result DAMPING_KNEE (\<lambda>d.
              Inr \<lparr>gp_stiffness = s, gp_damping = d\<rparr>))"
    by (simp add: HIP_ACTUATOR_value KNEE_ACTUATOR_value STIFFNESS_HIP_def DAMPING_HIP_def
        STIFFNESS_KNEE_def DAMPING_KNEE_def bind_result_def derive_gains_spec_def
        NATURAL_FREQ_def DAMPING_RATIO_def)
qed

theorem gains_closed_form_witness:
  "((0::real) < 2 \<and> (0::real) < 3 \<and> (0::real) \<le> 1)
   \<and> derive_gains_spec
        \<lparr>act_reflected_inertia = 2, act_velocity_limit = 1, act_effort_limit = 1\<rparr> 3 1
       = Inr \<lparr>gp_stiffness = 18, gp_damping = 12\<rparr>"
  using gains_closed_form
    [of "\<lparr>act_reflected_inertia = 2, act_velocity_limit = 1, act_effort_limit = 1\<rparr>" 3 1]
  by simp

text \<open>
  Claim C7. Two actuators with the same natural frequency and damping ratio get gains
  in the ratio of their reflected inertias. The knee actuator's reflected inertia is
  four times the hip actuator's (gear ratios 12 and 6), so \<open>STIFFNESS_KNEE\<close> is four
  times \<open>STIFFNESS_HIP\<close> and \<open>DAMPING_KNEE\<close> four times \<open>DAMPING_HIP\<close>.
\<close>

theorem gains_scale_with_inertia:
  "(derive_gains_spec a w z = Inr ga \<and> derive_gains_spec b w z = Inr gb
      \<and> act_reflected_inertia b = c * act_reflected_inertia a \<longrightarrow>
      gp_stiffness gb = c * gp_stiffness ga \<and> gp_damping gb = c * gp_damping ga)
   \<and> (\<exists>h k sh sk dh dk. HIP_ACTUATOR = Inr h \<and> KNEE_ACTUATOR = Inr k
        \<and> act_reflected_inertia k = 4 * act_reflected_inertia h
        \<and> STIFFNESS_HIP = Inr sh \<and> STIFFNESS_KNEE = Inr sk \<and> sk = 4 * sh
        \<and> DAMPING_HIP = Inr dh \<and> DAMPING_KNEE = Inr dk \<and> dk = 4 * dh)"
proof (intro conjI impI)
  assume "derive_gains_spec a w z = Inr ga \<and> derive_gains_spec b w z = Inr gb
      \<and> act_reflected_inertia b = c * act_reflected_inertia a"
  then show "gp_stiffness gb = c * gp_stiffness ga" "gp_damping gb = c * gp_damping ga"
    by (auto simp: derive_gains_spec_def split: if_splits)
next
  have sh: "STIFFNESS_HIP = Inr (0.000111842 * 6 ^ 2 * NATURAL_FREQ ^ 2)"
    and sk: "STIFFNESS_KNEE = Inr (0.000111842 * 12 ^ 2 * NATURAL_FREQ ^ 2)"
    and dh: "DAMPING_HIP = Inr (2 * DAMPING_RATIO * (0.000111842 * 6 ^ 2) * NATURAL_FREQ)"
    and dk: "DAMPING_KNEE = Inr (2 * DAMPING_RATIO * (0.000111842 * 12 ^ 2) * NATURAL_FREQ)"
    by (simp_all add: HIP_ACTUATOR_value KNEE_ACTUATOR_value STIFFNESS_HIP_def DAMPING_HIP_def
        STIFFNESS_KNEE_def DAMPING_KNEE_def bind_result_def)
  show "\<exists>h k sh sk dh dk. HIP_ACTUATOR = Inr h \<and> KNEE_ACTUATOR = Inr k
        \<and> act_reflected_inertia k = 4 * act_reflected_inertia h
        \<and> STIFFNESS_HIP = Inr sh \<and> STIFFNESS_KNEE = Inr sk \<and> sk = 4 * sh
        \<and> DAMPING_HIP = Inr dh \<and> DAMPING_KNEE = Inr dk \<and> dk = 4 * dh"
    unfolding HIP_ACTUATOR_value KNEE_ACTUATOR_value sh sk dh dk
    apply (intro exI conjI)
            apply (rule refl)
           apply (rule refl)
          apply simp
         apply (rule refl)
        apply (rule refl)
       apply simp
      apply (rule refl)
     apply (rule refl)
    apply simp
    done
qed

theorem gains_scale_with_inertia_witness:
  "(derive_gains_spec
      \<lparr>act_reflected_inertia = 1, act_velocity_limit = 1, act_effort_limit = 1\<rparr> 2 1
      = Inr \<lparr>gp_stiffness = 4, gp_damping = 4\<rparr>
    \<and> derive_gains_spec
      \<lparr>act_reflected_inertia = 3, act_velocity_limit = 1, act_effort_limit = 1\<rparr> 2 1
      = Inr \<lparr>gp_stiffness = 12, gp_damping = 12\<rparr>
    \<and> (3::real) = 3 * 1)
   \<and> gp_stiffness \<lparr>gp_stiffness = 12, gp_damping = 12\<rparr>
       = 3 * gp_stiffness \<lparr>gp_stiffness = 4, gp_damping = 4\<rparr>
   \<and> gp_damping \<lparr>gp_stiffness = 12, gp_damping = 12\<rparr>
       = 3 * gp_damping \<lparr>gp_stiffness = 4, gp_damping = 4\<rparr>"
proof -
  have h: "derive_gains_spec
      \<lparr>act_reflected_inertia = 1, act_velocity_limit = 1, act_effort_limit = 1\<rparr> 2 1
      = Inr \<lparr>gp_stiffness = 4, gp_damping = 4\<rparr>
    \<and> derive_gains_spec
      \<lparr>act_reflected_inertia = 3, act_velocity_limit = 1, act_effort_limit = 1\<rparr> 2 1
      = Inr \<lparr>gp_stiffness = 12, gp_damping = 12\<rparr>
    \<and> act_reflected_inertia
        \<lparr>act_reflected_inertia = 3, act_velocity_limit = 1, act_effort_limit = 1\<rparr>
      = 3 * act_reflected_inertia
        \<lparr>act_reflected_inertia = 1, act_velocity_limit = 1, act_effort_limit = 1\<rparr>"
    by (simp add: derive_gains_spec_def)
  from h gains_scale_with_inertia
    [of "\<lparr>act_reflected_inertia = 1, act_velocity_limit = 1, act_effort_limit = 1\<rparr>" 2 1
        "\<lparr>gp_stiffness = 4, gp_damping = 4\<rparr>"
        "\<lparr>act_reflected_inertia = 3, act_velocity_limit = 1, act_effort_limit = 1\<rparr>"
        "\<lparr>gp_stiffness = 12, gp_damping = 12\<rparr>" 3]
  show ?thesis by simp
qed

subsection \<open>The action-scale dict\<close>

lemma GO2_ARTICULATION_value:
  "GO2_ARTICULATION =
     Inr \<lparr>actuators =
            [BuiltinPosition
               \<lparr>joint_names_expr = [''.*_hip_joint'', ''.*_thigh_joint''],
                stiffness = 0.000111842 * 6 ^ 2 * NATURAL_FREQ ^ 2,
                damping = 2 * DAMPING_RATIO * (0.000111842 * 6 ^ 2) * NATURAL_FREQ,
                effort_limit = Some 23.7,
                armature = 0.000111842 * 6 ^ 2\<rparr>,
             BuiltinPosition
               \<lparr>joint_names_expr = [''.*_calf_joint''],
                stiffness = 0.000111842 * 12 ^ 2 * NATURAL_FREQ ^ 2,
                damping = 2 * DAMPING_RATIO * (0.000111842 * 12 ^ 2) * NATURAL_FREQ,
                effort_limit = Some 45.43,
                armature = 0.000111842 * 12 ^ 2\<rparr>],
          soft_joint_pos_limit_factor = 0.9\<rparr>"
  by (simp add: GO2_ARTICULATION_def GO2_HIP_ACTUATOR_CFG_def GO2_KNEE_ACTUATOR_CFG_def
      STIFFNESS_HIP_def DAMPING_HIP_def STIFFNESS_KNEE_def DAMPING_KNEE_def
      HIP_ACTUATOR_value KNEE_ACTUATOR_value bind_result_def)

lemma NATURAL_FREQ_pos: "0 < NATURAL_FREQ"
  by (simp add: NATURAL_FREQ_def)

lemma GO2_ACTION_SCALE_value:
  "GO2_ACTION_SCALE =
     Inr [(''.*_hip_joint'',
             ACTION_SCALE_MULTIPLIER * (23.7 / (0.000111842 * 6 ^ 2 * NATURAL_FREQ ^ 2))),
          (''.*_thigh_joint'',
             ACTION_SCALE_MULTIPLIER * (23.7 / (0.000111842 * 6 ^ 2 * NATURAL_FREQ ^ 2))),
          (''.*_calf_joint'',
             ACTION_SCALE_MULTIPLIER * (45.43 / (0.000111842 * 12 ^ 2 * NATURAL_FREQ ^ 2)))]"
  using NATURAL_FREQ_pos
  by (simp add: GO2_ACTION_SCALE_def GO2_ARTICULATION_value bind_result_def)

lemma scale_names_map_of:
  "scale_names e s names d = Inr d' \<Longrightarrow>
     map_of d' n = (if n \<in> set names then Some (ACTION_SCALE_MULTIPLIER * (e / s)) else map_of d n)"
proof (induction names arbitrary: d)
  case Nil
  then show ?case by simp
next
  case (Cons a names)
  then show ?case
    by (auto simp: update_conv' split: if_splits)
qed

lemma scale_names_keys:
  "scale_names e s names d = Inr d' \<Longrightarrow> fst ` set d' = fst ` set d \<union> set names"
proof (induction names arbitrary: d)
  case Nil
  then show ?case by simp
next
  case (Cons a names)
  from Cons.prems have s: "s \<noteq> 0"
    and r: "scale_names e s names (AList.update a (ACTION_SCALE_MULTIPLIER * (e / s)) d) = Inr d'"
    by (auto split: if_splits)
  from Cons.IH [OF r] show ?case by (auto simp: dom_update)
qed

lemma scale_names_distinct:
  "scale_names e s names d = Inr d' \<Longrightarrow> distinct (map fst d) \<Longrightarrow> distinct (map fst d')"
proof (induction names arbitrary: d)
  case Nil
  then show ?case by simp
next
  case (Cons a names)
  from Cons.prems have
    r: "scale_names e s names (AList.update a (ACTION_SCALE_MULTIPLIER * (e / s)) d) = Inr d'"
    by (auto split: if_splits)
  from Cons.IH [OF r] Cons.prems(2) show ?case by (simp add: distinct_update)
qed

lemma action_scale_loop_keys:
  "action_scale_loop acts d = Inr m \<Longrightarrow>
     fst ` set m = fst ` set d \<union> (\<Union>a\<in>set acts. set (cfg_joint_names a))"
proof (induction acts d rule: action_scale_loop.induct)
  case (1 d)
  then show ?case by simp
next
  case (2 rest d)
  then show ?case by simp
next
  case (3 a rest d)
  from "3.prems" obtain e d' where e: "effort_limit a = Some e"
    and d': "scale_names e (stiffness a) (joint_names_expr a) d = Inr d'"
    and m: "action_scale_loop rest d' = Inr m"
    by (auto split: option.splits sum.splits)
  from "3.IH" [OF e d' m] scale_names_keys [OF d'] show ?case by auto
qed

lemma action_scale_loop_distinct:
  "action_scale_loop acts d = Inr m \<Longrightarrow> distinct (map fst d) \<Longrightarrow> distinct (map fst m)"
proof (induction acts d rule: action_scale_loop.induct)
  case (1 d)
  then show ?case by simp
next
  case (2 rest d)
  then show ?case by simp
next
  case (3 a rest d)
  from "3.prems" obtain e d' where e: "effort_limit a = Some e"
    and d': "scale_names e (stiffness a) (joint_names_expr a) d = Inr d'"
    and m: "action_scale_loop rest d' = Inr m"
    by (auto split: option.splits sum.splits)
  from "3.IH" [OF e d' m] scale_names_distinct [OF d' "3.prems"(2)] show ?case by simp
qed

text \<open>
  Claim C6. Every joint pattern of an actuator group appears in the derived
  action-scale dict exactly once: when the loop succeeds, the keys of the dict are the
  union of the groups' joint patterns and no key occurs twice. The keys of
  \<open>GO2_ACTION_SCALE\<close> are \<^verbatim>\<open>.*_hip_joint\<close>, \<^verbatim>\<open>.*_thigh_joint\<close> and \<^verbatim>\<open>.*_calf_joint\<close>, one
  entry each.
\<close>

theorem action_scale_keys_once:
  "(action_scale_loop acts [] = Inr m \<longrightarrow>
      set (map fst m) = (\<Union>a\<in>set acts. set (cfg_joint_names a)) \<and> distinct (map fst m))
   \<and> (\<exists>m. GO2_ACTION_SCALE = Inr m
        \<and> map fst m = [''.*_hip_joint'', ''.*_thigh_joint'', ''.*_calf_joint'']
        \<and> distinct (map fst m))"
proof (intro conjI impI)
  assume a: "action_scale_loop acts [] = Inr m"
  from action_scale_loop_keys [OF a]
  show "set (map fst m) = (\<Union>a\<in>set acts. set (cfg_joint_names a))" by simp
  from action_scale_loop_distinct [OF a] show "distinct (map fst m)" by simp
next
  show "\<exists>m. GO2_ACTION_SCALE = Inr m
        \<and> map fst m = [''.*_hip_joint'', ''.*_thigh_joint'', ''.*_calf_joint'']
        \<and> distinct (map fst m)"
    by (simp add: GO2_ACTION_SCALE_value)
qed

theorem action_scale_keys_once_witness:
  "action_scale_loop
     [BuiltinPosition \<lparr>joint_names_expr = [''a'', ''b'', ''a''], stiffness = 2, damping = 0,
                       effort_limit = Some 1, armature = 0\<rparr>] []
     = Inr [(''a'', 1 / 8), (''b'', 1 / 8)]
   \<and> set (map fst [(''a'', 1 / 8 :: real), (''b'', 1 / 8)])
       = (\<Union>a\<in>set [BuiltinPosition \<lparr>joint_names_expr = [''a'', ''b'', ''a''], stiffness = 2,
                       damping = 0, effort_limit = Some 1, armature = 0\<rparr>].
            set (cfg_joint_names a))
   \<and> distinct (map fst [(''a'', 1 / 8 :: real), (''b'', 1 / 8)])"
proof -
  have h: "action_scale_loop
     [BuiltinPosition \<lparr>joint_names_expr = [''a'', ''b'', ''a''], stiffness = 2, damping = 0,
                       effort_limit = Some 1, armature = 0\<rparr>] []
     = Inr [(''a'', 1 / 8), (''b'', 1 / 8)]"
    by (simp add: ACTION_SCALE_MULTIPLIER_def)
  from h action_scale_keys_once
    [of "[BuiltinPosition \<lparr>joint_names_expr = [''a'', ''b'', ''a''], stiffness = 2,
                       damping = 0, effort_limit = Some 1, armature = 0\<rparr>]"
        "[(''a'', 1 / 8), (''b'', 1 / 8)]"]
  show ?thesis by blast
qed

text \<open>
  Claim C10. All joint patterns of one actuator group receive the same action-scale
  value: the inner loop writes \<open>ACTION_SCALE_MULTIPLIER * (e / s)\<close> under every pattern
  of the group. In \<open>GO2_ACTION_SCALE\<close> the hip and thigh patterns, both of the hip
  group, have one and the same value.
\<close>

theorem same_group_same_scale:
  "(scale_names e s names d = Inr d' \<longrightarrow>
      (\<forall>n\<in>set names. map_of d' n = Some (ACTION_SCALE_MULTIPLIER * (e / s))))
   \<and> scale_at GO2_ACTION_SCALE ''.*_hip_joint'' = scale_at GO2_ACTION_SCALE ''.*_thigh_joint''
   \<and> scale_at GO2_ACTION_SCALE ''.*_hip_joint''
       = Some (ACTION_SCALE_MULTIPLIER * (23.7 / (0.000111842 * 6 ^ 2 * NATURAL_FREQ ^ 2)))"
proof (intro conjI impI ballI)
  fix n assume "scale_names e s names d = Inr d'" "n \<in> set names"
  then show "map_of d' n = Some (ACTION_SCALE_MULTIPLIER * (e / s))"
    by (simp add: scale_names_map_of)
qed (simp_all add: scale_at_def GO2_ACTION_SCALE_value)

theorem same_group_same_scale_witness:
  "scale_names 1 2 [''a'', ''b''] [] = Inr [(''a'', 1 / 8), (''b'', 1 / 8)]
   \<and> map_of [(''a'', 1 / 8 :: real), (''b'', 1 / 8)] ''a''
       = Some (ACTION_SCALE_MULTIPLIER * (1 / 2))
   \<and> map_of [(''a'', 1 / 8 :: real), (''b'', 1 / 8)] ''b''
       = Some (ACTION_SCALE_MULTIPLIER * (1 / 2))"
proof -
  have h: "scale_names 1 2 [''a'', ''b''] [] = Inr [(''a'', 1 / 8), (''b'', 1 / 8)]"
    by (simp add: ACTION_SCALE_MULTIPLIER_def)
  from same_group_same_scale [of 1 2 "[''a'', ''b'']" "[]" "[(''a'', 1 / 8), (''b'', 1 / 8)]"] h
  have "\<forall>n\<in>set [''a'', ''b''].
          map_of [(''a'', 1 / 8 :: real), (''b'', 1 / 8)] n
            = Some (ACTION_SCALE_MULTIPLIER * (1 / 2))"
    by blast
  then have "map_of [(''a'', 1 / 8 :: real), (''b'', 1 / 8)] ''a''
               = Some (ACTION_SCALE_MULTIPLIER * (1 / 2))"
    and "map_of [(''a'', 1 / 8 :: real), (''b'', 1 / 8)] ''b''
               = Some (ACTION_SCALE_MULTIPLIER * (1 / 2))"
    by (blast intro: list.set_intros)+
  with h show ?thesis by blast
qed

lemma scale_names_zero: "names \<noteq> [] \<Longrightarrow> scale_names e 0 names d = Inl ZeroDivisionError"
  by (cases names) simp_all

lemma scale_names_nonzero: "s \<noteq> 0 \<Longrightarrow> \<exists>d'. scale_names e s names d = Inr d'"
  by (induction names arbitrary: d) simp_all

text \<open>
  Claim C8, as stated: the derivation computes \<open>multiplier * (effort_limit / stiffness)\<close>
  for each joint pattern of each group and fails if \<open>stiffness \<le> 0\<close> or if
  \<open>effort_limit\<close> is absent. The module has no check of the stiffness: a negative
  stiffness gives a negative scale, and a zero stiffness goes unnoticed for a group
  without joint patterns, as the two evaluations show.
\<close>

theorem action_scale_negative_stiffness_counterexample:
  "action_scale_loop
     [BuiltinPosition \<lparr>joint_names_expr = [''j''], stiffness = - 1, damping = 0,
                       effort_limit = Some 1, armature = 0\<rparr>] []
     = Inr [(''j'', - (1 / 4))]
   \<and> action_scale_loop
     [BuiltinPosition \<lparr>joint_names_expr = [], stiffness = 0, damping = 0,
                       effort_limit = Some 1, armature = 0\<rparr>] []
     = Inr []"
  by (simp add: ACTION_SCALE_MULTIPLIER_def)

text \<open>
  Claim C8, amended. For a group whose \<open>effort_limit\<close> is absent the derivation fails
  (the assertion); for a group with a zero stiffness and at least one joint pattern it
  fails (division by zero); for a group with a stiffness other than zero, negative ones
  included, it writes \<open>multiplier * (effort_limit / stiffness)\<close> under each joint pattern
  of the group and goes on with the remaining groups.
\<close>

theorem action_scale_failures:
  "(effort_limit a = None \<longrightarrow>
      action_scale_loop (BuiltinPosition a # rest) d = Inl AssertionError)
   \<and> (effort_limit a = Some e \<and> stiffness a = 0 \<and> joint_names_expr a \<noteq> [] \<longrightarrow>
      action_scale_loop (BuiltinPosition a # rest) d = Inl ZeroDivisionError)
   \<and> (effort_limit a = Some e \<and> stiffness a \<noteq> 0 \<longrightarrow>
      (\<exists>d'. scale_names e (stiffness a) (joint_names_expr a) d = Inr d'
         \<and> (\<forall>n\<in>set (joint_names_expr a).
               map_of d' n = Some (ACTION_SCALE_MULTIPLIER * (e / stiffness a)))
         \<and> action_scale_loop (BuiltinPosition a # rest) d = action_scale_loop rest d'))"
proof (intro conjI impI)
  assume "effort_limit a = None"
  then show "action_scale_loop (BuiltinPosition a # rest) d = Inl AssertionError" by simp
next
  assume "effort_limit a = Some e \<and> stiffness a = 0 \<and> joint_names_expr a \<noteq> []"
  then show "action_scale_loop (BuiltinPosition a # rest) d = Inl ZeroDivisionError"
    by (simp add: scale_names_zero)
next
  assume h: "effort_limit a = Some e \<and> stiffness a \<noteq> 0"
  then obtain d' where d': "scale_names e (stiffness a) (joint_names_expr a) d = Inr d'"
    using scale_names_nonzero by blast
  have "\<forall>n\<in>set (joint_names_expr a).
          map_of d' n = Some (ACTION_SCALE_MULTIPLIER * (e / stiffness a))"
    using scale_names_map_of [OF d'] by simp
  moreover have "action_scale_loop (BuiltinPosition a # rest) d = action_scale_loop rest d'"
    using h d' by simp
  ultimately show "\<exists>d'. scale_names e (stiffness a) (joint_names_expr a) d = Inr d'
         \<and> (\<forall>n\<in>set (joint_names_expr a).
               map_of d' n = Some (ACTION_SCALE_MULTIPLIER * (e / stiffness a)))
         \<and> action_scale_loop (BuiltinPosition a # rest) d = action_scale_loop rest d'"
    using d' by blast
qed

theorem action_scale_failures_witness:
  "action_scale_loop
     [BuiltinPosition \<lparr>joint_names_expr = [''j''], stiffness = 2, damping = 0,
                       effort_limit = None, armature = 0\<rparr>] [] = Inl AssertionError
   \<and> action_scale_loop
     [BuiltinPosition \<lparr>joint_names_expr = [''j''], stiffness = 0, damping = 0,
                       effort_limit = Some 1, armature = 0\<rparr>] [] = Inl ZeroDivisionError
   \<and> (\<exists>d'. scale_names 1 (- 1) [''j''] [] = Inr d'
         \<and> map_of d' ''j'' = Some (ACTION_SCALE_MULTIPLIER * (1 / - 1)))"
  using
    action_scale_failures
      [where a = "\<lparr>joint_names_expr = [''j''], stiffness = 2, damping = 0,
            effort_limit = None, armature = 0\<rparr>" and rest = "[]" and d = "[]"]
    action_scale_failures
      [where a = "\<lparr>joint_names_expr = [''j''], stiffness = 0, damping = 0,
            effort_limit = Some 1, armature = 0\<rparr>" and e = 1 and rest = "[]" and d = "[]"]
    action_scale_failures
      [where a = "\<lparr>joint_names_expr = [''j''], stiffness = - 1, damping = 0,
            effort_limit = Some 1, armature = 0\<rparr>" and e = 1 and rest = "[]" and d = "[]"]
  by simp

subsection \<open>Patterns and override resolution\<close>

lemma parse_foot_regex:
  "parse_pattern foot_regex =
     Some (One (CharClass ''FR'') # One (CharClass ''LR'') # map (\<lambda>c. One (Lit c)) ''_foot_collision'')"
  by (simp add: parse_pattern_def foot_regex_def unsupported_meta_def unsupported_in_class_def)

lemma parse_umbrella:
  "parse_pattern ''.*_collision'' = Some (Many AnyChar # map (\<lambda>c. One (Lit c)) ''_collision'')"
  by (simp add: parse_pattern_def unsupported_meta_def unsupported_in_class_def)

lemma match_One:
  "match_items (One a # r) s = (\<exists>c cs. s = c # cs \<and> atom_accepts a c \<and> match_items r cs)"
  by (cases s) auto

lemma match_literal: "match_items (map (\<lambda>c. One (Lit c)) lit) s = (s = lit)"
  by (induction lit arbitrary: s) (auto simp: match_One)

lemma foot_regex_matches:
  "re_fullmatch foot_regex g =
     Some (g \<in> {''FL_foot_collision'', ''FR_foot_collision'',
                 ''RL_foot_collision'', ''RR_foot_collision''})"
  unfolding re_fullmatch_def parse_foot_regex
  by (simp add: match_One match_literal) blast

lemma umbrella_total: "\<exists>b. re_fullmatch ''.*_collision'' g = Some b"
  unfolding re_fullmatch_def parse_umbrella by simp

lemma umbrella_foot:
  "re_fullmatch foot_regex g = Some True \<Longrightarrow> re_fullmatch ''.*_collision'' g = Some True"
  unfolding foot_regex_matches
  by (auto simp: re_fullmatch_def parse_umbrella)


text \<open>
  What the umbrella pattern \<^verbatim>\<open>.*_collision\<close> accepts: the names that end in
  \<^verbatim>\<open>_collision\<close> after a prefix without a newline.
\<close>

lemma match_Many_AnyChar:
  "match_items (Many AnyChar # r) s =
     (\<exists>p q. s = p @ q \<and> CHR 0x0A \<notin> set p \<and> match_items r q)"
proof (induction s)
  case Nil
  then show ?case by simp
next
  case (Cons c cs)
  show ?case
  proof
    assume "match_items (Many AnyChar # r) (c # cs)"
    then consider "match_items r (c # cs)"
      | "c \<noteq> CHR 0x0A" "match_items (Many AnyChar # r) cs"
      by auto
    then show "\<exists>p q. c # cs = p @ q \<and> CHR 0x0A \<notin> set p \<and> match_items r q"
    proof cases
      case 1
      then have "c # cs = [] @ (c # cs) \<and> CHR 0x0A \<notin> set [] \<and> match_items r (c # cs)"
        by simp
      then show ?thesis by blast
    next
      case 2
      with Cons.IH obtain p q where "cs = p @ q" "CHR 0x0A \<notin> set p" "match_items r q"
        by blast
      with 2 have "c # cs = (c # p) @ q \<and> CHR 0x0A \<notin> set (c # p) \<and> match_items r q"
        by simp
      then show ?thesis by blast
    qed
  next
    assume "\<exists>p q. c # cs = p @ q \<and> CHR 0x0A \<notin> set p \<and> match_items r q"
    then obtain p q where pq: "c # cs = p @ q" "CHR 0x0A \<notin> set p" "match_items r q"
      by blast
    show "match_items (Many AnyChar # r) (c # cs)"
    proof (cases p)
      case Nil
      with pq have "match_items r (c # cs)" by simp
      then show ?thesis by simp
    next
      case (Cons a p')
      with pq have "c = a" "cs = p' @ q" "c \<noteq> CHR 0x0A" "CHR 0x0A \<notin> set p'"
        by auto
      with pq(3) Cons.IH show ?thesis by auto
    qed
  qed
qed

lemma umbrella_matches:
  "re_fullmatch ''.*_collision'' g =
     Some (\<exists>p. g = p @ ''_collision'' \<and> CHR 0x0A \<notin> set p)"
  unfolding re_fullmatch_def parse_umbrella
  by (simp only: option.map match_Many_AnyChar match_literal) auto

lemma parse_A: "parse_pattern ''^A$'' = Some [One (Lit CHR ''A'')]"
  and parse_dotstar: "parse_pattern ''.*'' = Some [Many AnyChar]"
  by (simp_all add: parse_pattern_def unsupported_meta_def unsupported_in_class_def)

lemma first_override_first_match:
  "re_fullmatch k s = Some True \<Longrightarrow> \<forall>(k', v')\<in>set pre. re_fullmatch k' s = Some False \<Longrightarrow>
     first_override (pre @ (k, v) # post) s = Inr (Some v)"
  by (induction pre) auto

lemma condim_full:
  "re_fullmatch ''.*_collision'' g = Some True \<Longrightarrow>
     resolve_element (condim FULL_COLLISION) dflt g
       = Inr (if re_fullmatch foot_regex g = Some True then 3 else 1)"
  by (simp add: FULL_COLLISION_def foot_regex_matches)

lemma foot_only_override:
  "resolve_element (Patterned [(foot_regex, v)]) dflt g =
     (if re_fullmatch foot_regex g = Some True then Inr v
      else case dflt of Some d \<Rightarrow> Inr d | None \<Rightarrow> Inl NoOverrideDefined)"
  by (simp add: foot_regex_matches)

lemma resolve_single:
  "matches_any sel g = Some True \<Longrightarrow>
     resolve strict [g] sel prop dflt =
       (case resolve_element prop dflt g of Inl e \<Rightarrow> Inl e | Inr v \<Rightarrow> Inr [(g, v)])"
  by (simp split: sum.splits)

lemma full_selects: "re_fullmatch ''.*_collision'' g = Some True \<Longrightarrow>
  matches_any (geom_names_expr FULL_COLLISION) g = Some True"
  by (simp add: FULL_COLLISION_def)

lemma feet_selects: "re_fullmatch foot_regex g = Some True \<Longrightarrow>
  matches_any (geom_names_expr FEET_ONLY_COLLISION) g = Some True"
  by (simp add: FEET_ONLY_COLLISION_def)

text \<open>
  Claim C2. Override resolution takes the first matching key: the keys of an override
  mapping are checked in declaration order, and an element matched by several keys
  receives the value of the first key that matches it. For the overrides
  \<^verbatim>\<open>{"^A$": 1, ".*": 2}\<close> and the element \<^verbatim>\<open>A\<close>, which both keys match, resolution yields
  1; under the condim mapping of \<open>FULL_COLLISION\<close> every geometry that matches the foot
  pattern resolves to condim 3.
\<close>

theorem first_matching_key_wins:
  "(re_fullmatch k s = Some True \<and> (\<forall>(k', v')\<in>set pre. re_fullmatch k' s = Some False) \<longrightarrow>
      resolve_element (Patterned (pre @ (k, v) # post)) dflt s = Inr v)
   \<and> re_fullmatch ''^A$'' ''A'' = Some True \<and> re_fullmatch ''.*'' ''A'' = Some True
   \<and> resolve_element (Patterned [(''^A$'', 1 :: int), (''.*'', 2)]) dflt_A ''A'' = Inr 1
   \<and> resolve False [''A''] [''.*''] (Patterned [(''^A$'', 1 :: int), (''.*'', 2)]) dflt_A
       = Inr [(''A'', 1)]
   \<and> (re_fullmatch foot_regex g = Some True \<longrightarrow>
        resolve False [g] (geom_names_expr FULL_COLLISION) (condim FULL_COLLISION) dflt_c
          = Inr [(g, 3)])"
proof (intro conjI impI)
  assume "re_fullmatch k s = Some True \<and> (\<forall>(k', v')\<in>set pre. re_fullmatch k' s = Some False)"
  then show "resolve_element (Patterned (pre @ (k, v) # post)) dflt s = Inr v"
    by (simp add: first_override_first_match)
next
  show a: "re_fullmatch ''^A$'' ''A'' = Some True" and b: "re_fullmatch ''.*'' ''A'' = Some True"
    by (simp_all add: re_fullmatch_def parse_A parse_dotstar)
  from a show "resolve_element (Patterned [(''^A$'', 1 :: int), (''.*'', 2)]) dflt_A ''A'' = Inr 1"
    by simp
  from a b show "resolve False [''A''] [''.*''] (Patterned [(''^A$'', 1 :: int), (''.*'', 2)]) dflt_A
       = Inr [(''A'', 1)]"
    by simp
next
  assume f: "re_fullmatch foot_regex g = Some True"
  then have u: "re_fullmatch ''.*_collision'' g = Some True" by (rule umbrella_foot)
  show "resolve False [g] (geom_names_expr FULL_COLLISION) (condim FULL_COLLISION) dflt_c
          = Inr [(g, 3)]"
    by (simp add: resolve_single [OF full_selects [OF u]] condim_full [OF u] f
        del: resolve.simps)
qed

theorem first_matching_key_wins_witness:
  "re_fullmatch ''F.*'' ''FL'' = Some True
   \<and> re_fullmatch ''R.*'' ''FL'' = Some False
   \<and> resolve_element (Patterned ([(''R.*'', 7)] @ (''F.*'', 8) # [(''.*'', 9)])) None ''FL''
       = Inr (8 :: int)
   \<and> re_fullmatch foot_regex ''RL_foot_collision'' = Some True
   \<and> resolve False [''RL_foot_collision''] (geom_names_expr FULL_COLLISION)
        (condim FULL_COLLISION) None = Inr [(''RL_foot_collision'', 3)]"
proof -
  have h: "re_fullmatch ''F.*'' ''FL'' = Some True"
    and h': "re_fullmatch ''R.*'' ''FL'' = Some False"
    by (simp_all add: re_fullmatch_def parse_pattern_def unsupported_meta_def
        unsupported_in_class_def)
  from h' have pre: "\<forall>(k', v')\<in>set [(''R.*'', 7 :: int)]. re_fullmatch k' ''FL'' = Some False"
    by simp
  have f: "re_fullmatch foot_regex ''RL_foot_collision'' = Some True"
    by (simp add: foot_regex_matches)
  from h h' pre f first_matching_key_wins
    [where k = "''F.*''" and s = "''FL''" and pre = "[(''R.*'', 7)]" and v = 8
       and post = "[(''.*'', 9)]" and dflt = None and g = "''RL_foot_collision''"
       and dflt_c = None]
  show ?thesis by blast
qed

text \<open>
  Claim C9. For every geometry name that matches the foot pattern, resolving
  \<open>FULL_COLLISION\<close> gives the values that \<open>FEET_ONLY_COLLISION\<close> has as scalars:
  condim 3, priority 1, friction \<open>(0.6,)\<close> and solimp \<open>(0.9, 0.95, 0.023)\<close>, whatever
  the fallback values are.
\<close>

theorem foot_geometries_agree:
  "re_fullmatch foot_regex g = Some True \<longrightarrow>
     resolve False [g] (geom_names_expr FULL_COLLISION) (condim FULL_COLLISION) dc = Inr [(g, 3)]
   \<and> resolve False [g] (geom_names_expr FEET_ONLY_COLLISION) (condim FEET_ONLY_COLLISION) dc'
       = Inr [(g, 3)]
   \<and> resolve False [g] (geom_names_expr FULL_COLLISION) (priority FULL_COLLISION) dp = Inr [(g, 1)]
   \<and> resolve False [g] (geom_names_expr FEET_ONLY_COLLISION) (priority FEET_ONLY_COLLISION) dp'
       = Inr [(g, 1)]
   \<and> resolve False [g] (geom_names_expr FULL_COLLISION) (friction FULL_COLLISION) df
       = Inr [(g, [0.6])]
   \<and> resolve False [g] (geom_names_expr FEET_ONLY_COLLISION) (friction FEET_ONLY_COLLISION) df'
       = Inr [(g, [0.6])]
   \<and> resolve False [g] (geom_names_expr FULL_COLLISION) (solimp FULL_COLLISION) ds
       = Inr [(g, [0.9, 0.95, 0.023])]
   \<and> resolve False [g] (geom_names_expr FEET_ONLY_COLLISION) (solimp FEET_ONLY_COLLISION) ds'
       = Inr [(g, [0.9, 0.95, 0.023])]"
proof
  assume f: "re_fullmatch foot_regex g = Some True"
  then have u: "re_fullmatch ''.*_collision'' g = Some True" by (rule umbrella_foot)
  note full = resolve_single [OF full_selects [OF u]]
  note feet = resolve_single [OF feet_selects [OF f]]
  have c: "resolve_element (condim FULL_COLLISION) dc g = Inr 3"
    by (simp add: condim_full [OF u] f)
  have p: "resolve_element (priority FULL_COLLISION) dp g = Inr 1"
    and fr: "resolve_element (friction FULL_COLLISION) df g = Inr [0.6]"
    and so: "resolve_element (solimp FULL_COLLISION) ds g = Inr [0.9, 0.95, 0.023]"
    unfolding FULL_COLLISION_def by (simp_all add: foot_only_override f)
  show "resolve False [g] (geom_names_expr FULL_COLLISION) (condim FULL_COLLISION) dc = Inr [(g, 3)]
   \<and> resolve False [g] (geom_names_expr FEET_ONLY_COLLISION) (condim FEET_ONLY_COLLISION) dc'
       = Inr [(g, 3)]
   \<and> resolve False [g] (geom_names_expr FULL_COLLISION) (priority FULL_COLLISION) dp = Inr [(g, 1)]
   \<and> resolve False [g] (geom_names_expr FEET_ONLY_COLLISION) (priority FEET_ONLY_COLLISION) dp'
       = Inr [(g, 1)]
   \<and> resolve False [g] (geom_names_expr FULL_COLLISION) (friction FULL_COLLISION) df
       = Inr [(g, [0.6])]
   \<and> resolve False [g] (geom_names_expr FEET_ONLY_COLLISION) (friction FEET_ONLY_COLLISION) df'
       = Inr [(g, [0.6])]
   \<and> resolve False [g] (geom_names_expr FULL_COLLISION) (solimp FULL_COLLISION) ds
       = Inr [(g, [0.9, 0.95, 0.023])]
   \<and> resolve False [g] (geom_names_expr FEET_ONLY_COLLISION) (solimp FEET_ONLY_COLLISION) ds'
       = Inr [(g, [0.9, 0.95, 0.023])]"
    unfolding full feet c p fr so
    by (simp add: FEET_ONLY_COLLISION_def)
qed


theorem foot_geometries_agree_witness:
  "re_fullmatch foot_regex ''FL_foot_collision'' = Some True
   \<and> resolve False [''FL_foot_collision''] (geom_names_expr FULL_COLLISION)
        (condim FULL_COLLISION) None = Inr [(''FL_foot_collision'', 3)]
   \<and> resolve False [''FL_foot_collision''] (geom_names_expr FEET_ONLY_COLLISION)
        (condim FEET_ONLY_COLLISION) None = Inr [(''FL_foot_collision'', 3)]
   \<and> resolve False [''FL_foot_collision''] (geom_names_expr FULL_COLLISION)
        (priority FULL_COLLISION) None = Inr [(''FL_foot_collision'', 1)]
   \<and> resolve False [''FL_foot_collision''] (geom_names_expr FULL_COLLISION)
        (friction FULL_COLLISION) None = Inr [(''FL_foot_collision'', [0.6])]
   \<and> resolve False [''FL_foot_collision''] (geom_names_expr FULL_COLLISION)
        (solimp FULL_COLLISION) None = Inr [(''FL_foot_collision'', [0.9, 0.95, 0.023])]"
proof -
  have f: "re_fullmatch foot_regex ''FL_foot_collision'' = Some True"
    by (simp add: foot_regex_matches)
  from f foot_geometries_agree
    [where g = "''FL_foot_collision''" and dc = None and dc' = None and dp = None
       and df = None and ds = None]
  show ?thesis by blast
qed




subsection \<open>The literal for \<open>\<pi>\<close> in the natural frequency\<close>

text \<open>
  \<open>NATURAL_FREQ\<close> is written with the literal \<^verbatim>\<open>3.1415926535\<close>. The bounds
  \<open>3.141592653 < \<pi> < 3.141592654\<close> follow from the Taylor polynomial of the sine of
  degree 11 with its remainder, evaluated near \<open>\<pi> / 6\<close>, where the sine is \<open>1 / 2\<close>.
\<close>

lemma sum_upto_12:
  "(\<Sum>m<12. f m) = f 0 + f 1 + f 2 + f 3 + f 4 + f 5 + f 6 + f 7 + f 8 + f 9 + f 10 + f 11"
  for f :: "nat \<Rightarrow> real"
  by (simp add: eval_nat_numeral)

lemma sin_coeff_values:
  "sin_coeff (Suc 0) = 1" "sin_coeff 2 = 0" "sin_coeff 3 = - 1 / 6" "sin_coeff 4 = 0"
  "sin_coeff 5 = 1 / 120" "sin_coeff 6 = 0" "sin_coeff 7 = - 1 / 5040" "sin_coeff 8 = 0"
  "sin_coeff 9 = 1 / 362880" "sin_coeff 10 = 0" "sin_coeff 11 = - 1 / 39916800"
  by (simp_all add: sin_coeff_def fact_numeral)

lemma sin_poly_12:
  "(\<Sum>m<12. sin_coeff m * x ^ m) =
     x - x^3 / 6 + x^5 / 120 - x^7 / 5040 + x^9 / 362880 - x^11 / 39916800" for x :: real
  by (simp add: sum_upto_12 sin_coeff_values)

lemma sin_taylor_12:
  fixes x :: real
  assumes "0 \<le> x"
  shows "\<bar>sin x - (x - x^3 / 6 + x^5 / 120 - x^7 / 5040 + x^9 / 362880 - x^11 / 39916800)\<bar>
           \<le> x ^ 12 / 479001600"
proof -
  have "\<bar>sin x - (\<Sum>m<12. sin_coeff m * x ^ m)\<bar> \<le> inverse (fact 12) * \<bar>x\<bar> ^ 12"
    by (rule Maclaurin_sin_bound)
  moreover have "inverse (fact 12) * \<bar>x\<bar> ^ 12 = x ^ 12 / 479001600"
    using assms by (simp add: fact_numeral field_simps)
  ultimately show ?thesis by (simp only: sin_poly_12)
qed

lemma sin_below_half: "sin (1047197551 / 2000000000 :: real) < 1 / 2"
proof -
  let ?x = "1047197551 / 2000000000 :: real"
  have "(?x - ?x^3 / 6 + ?x^5 / 120 - ?x^7 / 5040 + ?x^9 / 362880 - ?x^11 / 39916800)
          + ?x ^ 12 / 479001600 < 1 / 2"
    by (simp add: power_divide)
  with sin_taylor_12 [of ?x] show ?thesis by linarith
qed

lemma sin_above_half: "1 / 2 < sin (1570796327 / 3000000000 :: real)"
proof -
  let ?x = "1570796327 / 3000000000 :: real"
  have "1 / 2 < (?x - ?x^3 / 6 + ?x^5 / 120 - ?x^7 / 5040 + ?x^9 / 362880 - ?x^11 / 39916800)
          - ?x ^ 12 / 479001600"
    by (simp add: power_divide)
  with sin_taylor_12 [of ?x] show ?thesis by linarith
qed

lemma pi_lower: "3.141592653 < pi"
proof -
  have "sin (1047197551 / 2000000000 :: real) < sin (pi / 6)"
    using sin_below_half by (simp add: sin_30)
  moreover have "- (pi / 2) \<le> (1047197551 / 2000000000 :: real)"
    "(1047197551 / 2000000000 :: real) \<le> pi / 2" "- (pi / 2) \<le> pi / 6" "pi / 6 \<le> pi / 2"
    using pi_ge_two by simp_all
  ultimately have "(1047197551 / 2000000000 :: real) < pi / 6"
    by (simp only: sin_mono_less_eq)
  then show ?thesis by simp
qed

lemma pi_upper: "pi < 3.141592654"
proof -
  have "sin (pi / 6) < sin (1570796327 / 3000000000 :: real)"
    using sin_above_half by (simp add: sin_30)
  moreover have "- (pi / 2) \<le> (1570796327 / 3000000000 :: real)"
    "(1570796327 / 3000000000 :: real) \<le> pi / 2" "- (pi / 2) \<le> pi / 6" "pi / 6 \<le> pi / 2"
    using pi_ge_two by simp_all
  ultimately have "pi / 6 < (1570796327 / 3000000000 :: real)"
    by (simp only: sin_mono_less_eq)
  then show ?thesis by simp
qed


lemma abs_close: "1 - e \<le> q \<Longrightarrow> q \<le> 1 + e \<Longrightarrow> \<bar>q - 1\<bar> \<le> e" for q e :: real
  by linarith

lemma pi_sq_near:
  "\<bar>pi ^ 2 / 3.1415926535 ^ 2 - 1\<bar> \<le> 4 / 10 ^ 10"
proof -
  have lo: "(3.141592653 :: real) ^ 2 \<le> pi ^ 2"
    using pi_lower by (intro power_mono) simp_all
  have hi: "pi ^ 2 \<le> (3.141592654 :: real) ^ 2"
    using pi_upper by (intro power_mono) simp_all
  have "(1 - 4 / 10 ^ 10) * (3.1415926535 :: real) ^ 2 \<le> 3.141592653 ^ 2"
    and "(3.141592654 :: real) ^ 2 \<le> (1 + 4 / 10 ^ 10) * 3.1415926535 ^ 2"
    by (simp_all add: power_divide)
  with lo hi have "(1 - 4 / 10 ^ 10) * (3.1415926535 :: real) ^ 2 \<le> pi ^ 2"
    and "pi ^ 2 \<le> (1 + 4 / 10 ^ 10) * (3.1415926535 :: real) ^ 2"
    by linarith+
  then have "1 - 4 / 10 ^ 10 \<le> pi ^ 2 / 3.1415926535 ^ 2"
    and "pi ^ 2 / 3.1415926535 ^ 2 \<le> 1 + 4 / 10 ^ 10"
    by (simp_all add: pos_le_divide_eq pos_divide_le_eq)
  then show ?thesis by (rule abs_close)
qed

text \<open>
  Claim C4. The action scale of the pattern \<^verbatim>\<open>.*_hip_joint\<close> is
  \<open>0.25 * (23.7 / stiffness)\<close> with the module's hip stiffness, and it differs from
  \<open>0.25 * 23.7 / (i * (2 * \<pi> * 10)\<^sup>2)\<close>, \<open>i\<close> the hip actuator's reflected inertia, by less
  than \<open>10\<^sup>-\<^sup>9\<close> of that value (indeed by less than \<open>4 * 10\<^sup>-\<^sup>1\<^sup>0\<close> of it). The values are
  exact reals.
\<close>

theorem action_scale_hip_tolerance:
  "\<exists>h v. HIP_ACTUATOR = Inr h
     \<and> scale_at GO2_ACTION_SCALE ''.*_hip_joint'' = Some v
     \<and> v = 0.25 * (23.7 / (act_reflected_inertia h * NATURAL_FREQ ^ 2))
     \<and> \<bar>v - 0.25 * 23.7 / (act_reflected_inertia h * (2 * pi * 10) ^ 2)\<bar>
         \<le> 4 / 10 ^ 10 * \<bar>0.25 * 23.7 / (act_reflected_inertia h * (2 * pi * 10) ^ 2)\<bar>
     \<and> \<bar>v - 0.25 * 23.7 / (act_reflected_inertia h * (2 * pi * 10) ^ 2)\<bar>
         \<le> 1 / 10 ^ 9 * \<bar>0.25 * 23.7 / (act_reflected_inertia h * (2 * pi * 10) ^ 2)\<bar>"
proof -
  let ?ri = "0.000111842 * 6 ^ 2 :: real"
  let ?ideal = "0.25 * 23.7 / (?ri * (2 * pi * 10) ^ 2) :: real"
  let ?v = "0.25 * (23.7 / (?ri * NATURAL_FREQ ^ 2)) :: real"
  have sc: "scale_at GO2_ACTION_SCALE ''.*_hip_joint'' = Some ?v"
    by (simp add: scale_at_def GO2_ACTION_SCALE_value ACTION_SCALE_MULTIPLIER_def)
  have eq: "?v = ?ideal * (pi ^ 2 / 3.1415926535 ^ 2)"
    by (simp add: NATURAL_FREQ_def power_mult_distrib power_divide)
  have "\<bar>?v - ?ideal\<bar> = \<bar>?ideal\<bar> * \<bar>pi ^ 2 / 3.1415926535 ^ 2 - 1\<bar>"
    unfolding eq by (simp only: abs_mult [symmetric] right_diff_distrib mult_1_right)
  also have "\<dots> \<le> \<bar>?ideal\<bar> * (4 / 10 ^ 10)"
    by (intro mult_left_mono pi_sq_near) simp
  finally have tol: "\<bar>?v - ?ideal\<bar> \<le> 4 / 10 ^ 10 * \<bar>?ideal\<bar>"
    by (simp only: mult.commute)
  have "4 / 10 ^ 10 * \<bar>?ideal\<bar> \<le> 1 / 10 ^ 9 * \<bar>?ideal\<bar>"
    by (intro mult_right_mono) simp_all
  with tol have tol': "\<bar>?v - ?ideal\<bar> \<le> 1 / 10 ^ 9 * \<bar>?ideal\<bar>"
    by (rule order_trans)
  show ?thesis
    unfolding HIP_ACTUATOR_value
    apply (intro exI conjI)
        apply (rule refl)
       apply (rule sc)
      apply simp
    using tol apply simp
    using tol' apply simp
    done
qed

end
